theory Spec2Isabelle
  imports Main
begin

section \<open>Finite complex reflection groups: the derived invariants\<close>

text \<open>
  The module \<^verbatim>\<open>sage/categories/finite_complex_reflection_groups.py\<close> attaches
  methods to every parent that lies in the category of finite complex reflection
  groups. All of them are computed from a few primitives the concrete group supplies:
  \<^verbatim>\<open>degrees()\<close>, \<^verbatim>\<open>codegrees()\<close>, \<^verbatim>\<open>number_of_simple_reflections()\<close> and
  \<^verbatim>\<open>number_of_irreducible_components()\<close>. A group is therefore a record of what
  these primitives return. The two optional abstract methods are taken as implemented:
  every method below calls them, so this is the case of a group with defined degrees and
  codegrees. Integers are Python's and Sage's unbounded integers, hence \<^typ>\<open>int\<close>;
  on \<^typ>\<open>int\<close> the operations \<open>div\<close> and \<open>mod\<close> are floor division and the
  remainder with the sign of the divisor, as \<^verbatim>\<open>//\<close> and \<^verbatim>\<open>%\<close> are.
\<close>

record group =
  degrees :: "int list"
  codegrees :: "int list"
  number_of_simple_reflections :: int
  number_of_irreducible_components :: int

text \<open>
  The exceptions the methods can end with: the \<^verbatim>\<open>ValueError\<close> carries its message,
  \<^verbatim>\<open>ZeroDivisionError\<close> is what \<^verbatim>\<open>//\<close> and \<^verbatim>\<open>%\<close> raise on a zero divisor.
\<close>

datatype error = ValueError string | ZeroDivisionError

subsection \<open>The builtins the methods call\<close>

text \<open>
  \<^verbatim>\<open>sum\<close>, \<^verbatim>\<open>len\<close>, \<^verbatim>\<open>list.count\<close>, \<^verbatim>\<open>max\<close> and Sage's \<^verbatim>\<open>prod\<close> are
  loops over the sequence; each is the left-to-right loop it runs. \<^verbatim>\<open>max\<close> of an empty
  sequence raises \<^verbatim>\<open>ValueError\<close>.
\<close>

definition sum_py :: "int list \<Rightarrow> int" where
  "sum_py xs = foldl (+) 0 xs"

definition len_py :: "'a list \<Rightarrow> int" where
  "len_py xs = int (length xs)"

definition count_py :: "int list \<Rightarrow> int \<Rightarrow> int" where
  "count_py xs v = foldl (\<lambda>n x. if x = v then n + 1 else n) 0 xs"

definition prod_sage :: "int list \<Rightarrow> int" where
  "prod_sage xs = foldl (*) 1 xs"

definition max_py :: "int list \<Rightarrow> error + int" where
  "max_py xs =
     (case xs of
        [] \<Rightarrow> Inl (ValueError ''max() arg is an empty sequence'')
      | x # ys \<Rightarrow> Inr (foldl max x ys))"

definition floordiv :: "int \<Rightarrow> int \<Rightarrow> error + int" where
  "floordiv a b = (if b = 0 then Inl ZeroDivisionError else Inr (a div b))"

subsection \<open>\<^verbatim>\<open>FiniteComplexReflectionGroups.ParentMethods\<close>\<close>

definition rank :: "group \<Rightarrow> int" where
  "rank W = len_py (degrees W)"

definition number_of_reflecting_hyperplanes :: "group \<Rightarrow> int" where
  "number_of_reflecting_hyperplanes W = sum_py (codegrees W) + rank W"

definition number_of_reflections :: "group \<Rightarrow> int" where
  "number_of_reflections W = sum_py (degrees W) - rank W"

definition cardinality :: "group \<Rightarrow> int" where
  "cardinality W = prod_sage (degrees W)"

definition is_well_generated :: "group \<Rightarrow> bool" where
  "is_well_generated W \<longleftrightarrow> number_of_simple_reflections W = rank W"

definition is_real :: "group \<Rightarrow> bool" where
  "is_real W \<longleftrightarrow> count_py (degrees W) 2 = number_of_irreducible_components W"

subsection \<open>\<^verbatim>\<open>Irreducible.ParentMethods\<close>\<close>

text \<open>The general Coxeter number of an irreducible group; \<^verbatim>\<open>//\<close> raises at rank 0.\<close>

definition Irreducible_coxeter_number :: "group \<Rightarrow> error + int" where
  "Irreducible_coxeter_number W =
     floordiv (number_of_reflecting_hyperplanes W + number_of_reflections W) (rank W)"

subsection \<open>\<^verbatim>\<open>WellGenerated.ParentMethods\<close>\<close>

definition WellGenerated_is_well_generated :: "group \<Rightarrow> bool" where
  "WellGenerated_is_well_generated W \<longleftrightarrow> True"

text \<open>
  Which \<^verbatim>\<open>ParentMethods\<close> classes a parent inherits from is fixed by the category it
  was constructed in. The four categories of the module, and the implementation of
  \<^verbatim>\<open>is_well_generated\<close> the method resolution finds in each: the nested class
  \<^verbatim>\<open>WellGenerated.ParentMethods\<close> comes before the general one for the two
  well-generated categories.
\<close>

datatype category =
  Finite | Finite_Irreducible | Finite_WellGenerated | Finite_WellGenerated_Irreducible

fun resolve_is_well_generated :: "category \<Rightarrow> group \<Rightarrow> bool" where
  "resolve_is_well_generated Finite W = is_well_generated W"
| "resolve_is_well_generated Finite_Irreducible W = is_well_generated W"
| "resolve_is_well_generated Finite_WellGenerated W = WellGenerated_is_well_generated W"
| "resolve_is_well_generated Finite_WellGenerated_Irreducible W =
     WellGenerated_is_well_generated W"

subsection \<open>Formatting the error message\<close>

text \<open>
  The message of the \<^verbatim>\<open>ValueError\<close> is built with \<^verbatim>\<open>%s\<close>, which writes an
  integer in decimal, with a leading minus sign when it is negative.
\<close>

definition digit_char :: "nat \<Rightarrow> char" where
  "digit_char n = ''0123456789'' ! n"

fun str_nat :: "nat \<Rightarrow> string" where
  "str_nat n =
     (if n < 10 then [digit_char n] else str_nat (n div 10) @ [digit_char (n mod 10)])"

declare str_nat.simps [simp del]

definition str_int :: "int \<Rightarrow> string" where
  "str_int i = (if i < 0 then CHR ''-'' # str_nat (nat (- i)) else str_nat (nat i))"

definition not_coprime_message :: "int \<Rightarrow> int \<Rightarrow> string" where
  "not_coprime_message p h =
     ''parameter p = '' @ str_int p @ '' is not coprime to the Coxeter number '' @ str_int h"

subsection \<open>Polynomials in \<open>q\<close> with integer coefficients\<close>

text \<open>
  Modelled from the spec: the polynomial arithmetic of the host system (the ring
  \<^verbatim>\<open>ZZ['q']\<close>, its product and its \<^verbatim>\<open>//\<close>) is not among the sources; the spec
  lists it as a library service supplying exact polynomials and exact polynomial
  division. A polynomial is the list of its coefficients, the constant one first and
  the leading one last and nonzero; the empty list is the zero polynomial.
\<close>

fun poly_add :: "int list \<Rightarrow> int list \<Rightarrow> int list" where
  \<comment> \<open>Modelled from the spec: the sum of two polynomials, coefficient by coefficient.\<close>
  "poly_add [] ys = ys"
| "poly_add (x # xs) [] = x # xs"
| "poly_add (x # xs) (y # ys) = (x + y) # poly_add xs ys"

definition poly_norm :: "int list \<Rightarrow> int list" where
  \<comment> \<open>Modelled from the spec: the normal form, without zero leading coefficients.\<close>
  "poly_norm xs = rev (dropWhile (\<lambda>c. c = 0) (rev xs))"

fun poly_mul_raw :: "int list \<Rightarrow> int list \<Rightarrow> int list" where
  \<comment> \<open>Modelled from the spec: the product, one coefficient of the left factor at a time.\<close>
  "poly_mul_raw [] ys = []"
| "poly_mul_raw (x # xs) ys = poly_add (map ((*) x) ys) (0 # poly_mul_raw xs ys)"

definition poly_mul :: "int list \<Rightarrow> int list \<Rightarrow> int list" where
  \<comment> \<open>Modelled from the spec: the product of two polynomials, in normal form.\<close>
  "poly_mul xs ys = poly_norm (poly_mul_raw xs ys)"

definition poly_prod :: "int list list \<Rightarrow> int list" where
  \<comment> \<open>Modelled from the spec: \<^verbatim>\<open>prod\<close> over polynomials, starting from 1.\<close>
  "poly_prod ps = foldl poly_mul [1] ps"

text \<open>
  Modelled from the spec: the quotient of the division with remainder, computed by long
  division on the coefficients read from the leading one down (\<open>sub_prefix\<close> subtracts
  a multiple of the divisor from the front of the remainder); dividing by the zero
  polynomial raises \<^verbatim>\<open>ZeroDivisionError\<close>.
\<close>

fun sub_prefix :: "int list \<Rightarrow> int list \<Rightarrow> int list" where
  \<comment> \<open>Modelled from the spec: one subtraction step of the long division.\<close>
  "sub_prefix xs [] = xs"
| "sub_prefix [] (y # ys) = []"
| "sub_prefix (x # xs) (y # ys) = (x - y) # sub_prefix xs ys"

fun div_loop :: "nat \<Rightarrow> int list \<Rightarrow> int list \<Rightarrow> int list" where
  \<comment> \<open>Modelled from the spec: the quotient's coefficients, leading one first; both
      arguments have their leading coefficient first, and \<open>k\<close> counts the steps left.\<close>
  "div_loop (Suc k) (x # a) (y # b) =
     (let c = x div y in c # div_loop k (sub_prefix a (map ((*) c) b)) (y # b))"
| "div_loop k a b = []"

definition poly_floordiv :: "int list \<Rightarrow> int list \<Rightarrow> error + int list" where
  \<comment> \<open>Modelled from the spec: \<^verbatim>\<open>//\<close> on polynomials, the quotient of the division with
      remainder.\<close>
  "poly_floordiv a b =
     (if b = [] then Inl ZeroDivisionError
      else Inr (poly_norm (rev (div_loop (Suc (length a) - length b) (rev a) (rev b)))))"

text \<open>
  Modelled from the spec: \<^verbatim>\<open>q_int\<close> of \<^verbatim>\<open>sage.combinat.q_analogues\<close> is not among
  the sources; the spec gives it as the polynomial \<open>1 + q + ... + q^(n-1)\<close> at the
  integer \<open>n\<close>, a sum with no term when \<open>n\<close> is not positive.
\<close>

definition q_int :: "int \<Rightarrow> int list" where
  \<comment> \<open>Modelled from the spec: the \<open>q\<close>-integer \<open>1 + q + ... + q^(n-1)\<close>.\<close>
  "q_int n = replicate (nat n) 1"

subsection \<open>\<^verbatim>\<open>WellGenerated.Irreducible.ParentMethods\<close>\<close>

text \<open>
  The value a Catalan-type method returns: a Sage integer, or with
  \<^verbatim>\<open>polynomial=True\<close> a polynomial in \<open>q\<close>.
\<close>

datatype number = Integer int | Polynomial "int list"

definition coxeter_number :: "group \<Rightarrow> error + int" where
  "coxeter_number W = max_py (degrees W)"

definition number_of_reflections_of_full_support :: "group \<Rightarrow> error + int" where
  "number_of_reflections_of_full_support W =
     (let n = rank W in
      case coxeter_number W of
        Inl e \<Rightarrow> Inl e
      | Inr h \<Rightarrow>
          (let l = cardinality W;
               codegrees' = butlast (codegrees W)
           in floordiv (n * h * prod_sage codegrees') l))"

text \<open>
  \<^verbatim>\<open>rational_catalan_number\<close> is a cached method; the cache is keyed by the arguments
  and the method reads nothing else, so a call is the function of its arguments below.
  The factor \<^verbatim>\<open>(p * (deg - 1)) % h\<close> raises when \<open>h\<close> is zero; the degrees are not
  empty once \<^verbatim>\<open>max\<close> has returned, so the first factor already raises.
\<close>

definition rational_catalan_number :: "group \<Rightarrow> int \<Rightarrow> bool \<Rightarrow> error + number" where
  "rational_catalan_number W p polynomial =
     (case coxeter_number W of
        Inl e \<Rightarrow> Inl e
      | Inr h \<Rightarrow>
          if gcd h p \<noteq> 1 then Inl (ValueError (not_coprime_message p h))
          else if h = 0 then Inl ZeroDivisionError
          else if polynomial then
            map_sum id Polynomial
              (poly_floordiv
                (poly_prod (map (\<lambda>deg. q_int (p + (p * (deg - 1)) mod h)) (degrees W)))
                (poly_prod (map (\<lambda>deg. q_int deg) (degrees W))))
          else
            map_sum id Integer
              (floordiv
                (prod_sage (map (\<lambda>deg. p + (p * (deg - 1)) mod h) (degrees W)))
                (prod_sage (map (\<lambda>deg. deg) (degrees W)))))"

definition fuss_catalan_number :: "group \<Rightarrow> int \<Rightarrow> bool \<Rightarrow> bool \<Rightarrow> error + number" where
  "fuss_catalan_number W m positive polynomial =
     (case coxeter_number W of
        Inl e \<Rightarrow> Inl e
      | Inr h \<Rightarrow>
          (let p = (if positive then m * h - 1 else m * h + 1)
           in rational_catalan_number W p polynomial))"

definition catalan_number :: "group \<Rightarrow> bool \<Rightarrow> bool \<Rightarrow> error + number" where
  "catalan_number W positive polynomial = fuss_catalan_number W 1 positive polynomial"

subsection \<open>The groups of the docstrings\<close>

text \<open>
  The examples of the docstrings, as the primitives they return there: the symmetric
  groups \<^verbatim>\<open>ColoredPermutations(1,3)\<close> and \<^verbatim>\<open>ColoredPermutations(1,4)\<close>, the groups
  \<^verbatim>\<open>ColoredPermutations(2,2)\<close> and \<^verbatim>\<open>ColoredPermutations(3,3)\<close>, and two groups
  that are not well generated, \<^verbatim>\<open>ReflectionGroup((4,2,3))\<close> and
  \<^verbatim>\<open>ReflectionGroup(31)\<close>, which need one simple reflection more than their rank.
  The last one is a group of rank 1, the cyclic group of order 5 with its degree 5.
\<close>

definition ColoredPermutations_1_3 :: group where
  "ColoredPermutations_1_3 = \<lparr>degrees = [2, 3], codegrees = [1, 0],
     number_of_simple_reflections = 2, number_of_irreducible_components = 1\<rparr>"

definition ColoredPermutations_1_4 :: group where
  "ColoredPermutations_1_4 = \<lparr>degrees = [2, 3, 4], codegrees = [2, 1, 0],
     number_of_simple_reflections = 3, number_of_irreducible_components = 1\<rparr>"

definition ColoredPermutations_2_2 :: group where
  "ColoredPermutations_2_2 = \<lparr>degrees = [2, 4], codegrees = [2, 0],
     number_of_simple_reflections = 2, number_of_irreducible_components = 1\<rparr>"

definition ColoredPermutations_3_3 :: group where
  "ColoredPermutations_3_3 = \<lparr>degrees = [3, 6, 9], codegrees = [6, 3, 0],
     number_of_simple_reflections = 3, number_of_irreducible_components = 1\<rparr>"

definition ReflectionGroup_4_2_3 :: group where
  "ReflectionGroup_4_2_3 = \<lparr>degrees = [4, 6, 8], codegrees = [8, 4, 0],
     number_of_simple_reflections = 4, number_of_irreducible_components = 1\<rparr>"

definition ReflectionGroup_31 :: group where
  "ReflectionGroup_31 = \<lparr>degrees = [8, 12, 20, 24], codegrees = [28, 16, 12, 0],
     number_of_simple_reflections = 5, number_of_irreducible_components = 1\<rparr>"

definition cyclic_5 :: group where
  "cyclic_5 = \<lparr>degrees = [5], codegrees = [0],
     number_of_simple_reflections = 1, number_of_irreducible_components = 1\<rparr>"

section \<open>The builtins compute what their names say\<close>

lemma foldl_add_shift: "foldl (+) (a::int) xs = a + sum_list xs"
  by (induction xs arbitrary: a) (simp_all add: add.assoc)

lemma sum_py_eq: "sum_py xs = sum_list xs"
  by (simp add: sum_py_def foldl_add_shift)

lemma foldl_mult_shift: "foldl (*) (a::int) xs = a * prod_list xs"
  by (induction xs arbitrary: a) (simp_all add: mult.assoc)

lemma prod_sage_eq: "prod_sage xs = prod_list xs"
  by (simp add: prod_sage_def foldl_mult_shift)

lemma foldl_count_shift:
  "foldl (\<lambda>n x. if x = v then n + 1 else n) (a::int) xs = a + int (count_list xs v)"
  by (induction xs arbitrary: a) simp_all

lemma count_py_eq: "count_py xs v = int (count_list xs v)"
  by (simp add: count_py_def foldl_count_shift)

lemma count_list_filter: "count_list xs v = length (filter (\<lambda>x. x = v) xs)"
  by (induction xs) simp_all

lemma foldl_max_Max: "foldl max (a::int) xs = Max (insert a (set xs))"
proof (induction xs arbitrary: a)
  case Nil
  show ?case by simp
next
  case (Cons x xs)
  have "Max (insert (max a x) (set xs)) = Max (insert a (insert x (set xs)))"
    by (cases "set xs = {}") (simp_all add: max.assoc max.commute max.left_commute)
  with Cons show ?case by simp
qed

lemma max_py_Inr: "max_py xs = Inr h \<longleftrightarrow> xs \<noteq> [] \<and> h = Max (set xs)"
  by (cases xs) (auto simp: max_py_def foldl_max_Max)

lemma prod_list_positive: "\<forall>x\<in>set xs. (0::int) < x \<Longrightarrow> 0 < prod_list xs"
  by (induction xs) simp_all

section \<open>The Coxeter number of a well-generated irreducible group\<close>

lemma coxeter_number_Inr:
  "coxeter_number W = Inr h \<longleftrightarrow> degrees W \<noteq> [] \<and> h = Max (set (degrees W))"
  by (simp add: coxeter_number_def max_py_Inr)

lemma coxeter_number_positive:
  assumes "degrees W \<noteq> []" and "\<forall>d\<in>set (degrees W). 0 < d"
  shows "coxeter_number W = Inr (Max (set (degrees W)))" and "0 < Max (set (degrees W))"
proof -
  show "coxeter_number W = Inr (Max (set (degrees W)))"
    using assms(1) by (simp add: coxeter_number_Inr)
  have "Max (set (degrees W)) \<in> set (degrees W)"
    using assms(1) by (intro Max_in) simp_all
  with assms(2) show "0 < Max (set (degrees W))" by blast
qed

section \<open>Evaluating a polynomial at 1\<close>

text \<open>
  The sum of the coefficients is the value at \<open>q = 1\<close>; it turns sums and products of
  polynomials into sums and products of integers, and the polynomial \<open>q_int n\<close> into
  \<open>n\<close>. A polynomial whose value at 1 is not zero is not the zero polynomial, which is
  how the denominator of the \<open>q\<close>-analogue is seen to be nonzero.
\<close>

lemma sum_list_poly_add: "sum_list (poly_add xs ys) = sum_list xs + sum_list ys"
  by (induction xs ys rule: poly_add.induct) simp_all

lemma sum_list_poly_mul_raw: "sum_list (poly_mul_raw xs ys) = sum_list xs * sum_list ys"
  by (induction xs) (simp_all add: sum_list_poly_add sum_list_const_mult algebra_simps)

lemma sum_list_dropWhile_zero:
  "sum_list (dropWhile (\<lambda>c. c = 0) xs) = sum_list (xs::int list)"
  by (induction xs) simp_all

lemma sum_list_poly_norm: "sum_list (poly_norm xs) = sum_list xs"
  by (simp add: poly_norm_def sum_list_dropWhile_zero)

lemma sum_list_poly_mul: "sum_list (poly_mul xs ys) = sum_list xs * sum_list ys"
  by (simp add: poly_mul_def sum_list_poly_norm sum_list_poly_mul_raw)

lemma sum_list_foldl_poly_mul:
  "sum_list (foldl poly_mul a ps) = sum_list a * prod_list (map sum_list ps)"
  by (induction ps arbitrary: a) (simp_all add: sum_list_poly_mul mult.assoc)

lemma sum_list_poly_prod: "sum_list (poly_prod ps) = prod_list (map sum_list ps)"
  by (simp add: poly_prod_def sum_list_foldl_poly_mul)

lemma sum_list_q_int: "sum_list (q_int n) = max 0 n"
  by (simp add: q_int_def sum_list_replicate)

lemma map_q_int_positive:
  "\<forall>d\<in>set ds. 0 < d \<Longrightarrow> map sum_list (map q_int ds) = ds"
  by (induction ds) (simp_all add: sum_list_q_int)

lemma poly_prod_q_int_nonzero:
  assumes "\<forall>d\<in>set ds. 0 < d"
  shows "poly_prod (map q_int ds) \<noteq> []"
proof
  assume "poly_prod (map q_int ds) = []"
  then have "sum_list (poly_prod (map q_int ds)) = 0" by simp
  then have "prod_list ds = 0"
    using assms by (simp add: sum_list_poly_prod map_q_int_positive del: map_map)
  with prod_list_positive [OF assms] show False by simp
qed

section \<open>The docstrings' examples\<close>

text \<open>
  The values the docstrings print, computed by the definitions above: the counts of
  \<^verbatim>\<open>ReflectionGroup((4,2,3))\<close>, the Coxeter number 30 of \<^verbatim>\<open>ReflectionGroup(31)\<close>
  (which is not its largest degree 24: the group is not well generated), and the
  Catalan numbers, among them the three \<open>q\<close>-analogues.
\<close>

lemma doctest_counts:
  "number_of_reflecting_hyperplanes ReflectionGroup_4_2_3 = 15"
  "number_of_reflections ReflectionGroup_4_2_3 = 15"
  "rank ReflectionGroup_4_2_3 = 3"
  "cardinality ReflectionGroup_4_2_3 = 192"
  "\<not> is_well_generated ReflectionGroup_4_2_3"
  "is_real ColoredPermutations_1_3"
  by code_simp+

lemma doctest_coxeter_number:
  "Irreducible_coxeter_number ReflectionGroup_31 = Inr 30"
  "coxeter_number ReflectionGroup_31 = Inr 24"
  "coxeter_number ColoredPermutations_1_3 = Inr 3"
  by code_simp+

lemma doctest_full_support:
  "number_of_reflections_of_full_support ColoredPermutations_1_4 = Inr 1"
  "number_of_reflections_of_full_support ColoredPermutations_3_3 = Inr 3"
  by code_simp+

lemma doctest_rational_catalan_number:
  "map (\<lambda>p. rational_catalan_number ColoredPermutations_1_3 p False) [5, 7, 8] =
     [Inr (Integer 7), Inr (Integer 12), Inr (Integer 15)]"
  "map (\<lambda>p. rational_catalan_number ColoredPermutations_2_2 p False) [7, 9, 11] =
     [Inr (Integer 10), Inr (Integer 15), Inr (Integer 21)]"
  "rational_catalan_number ColoredPermutations_1_4 3 True =
     Inr (Polynomial [1, 0, 1, 1, 1, 0, 1])"
  by code_simp+

lemma doctest_fuss_catalan_number:
  "map (\<lambda>i. fuss_catalan_number ColoredPermutations_1_3 i False False) [1, 2, 3] =
     [Inr (Integer 5), Inr (Integer 12), Inr (Integer 22)]"
  "map (\<lambda>i. fuss_catalan_number ColoredPermutations_1_4 i False False) [1, 2, 3] =
     [Inr (Integer 14), Inr (Integer 55), Inr (Integer 140)]"
  "fuss_catalan_number ColoredPermutations_2_2 2 False True =
     Inr (Polynomial [1, 0, 1, 0, 2, 0, 2, 0, 3, 0, 2, 0, 2, 0, 1, 0, 1])"
  "catalan_number ColoredPermutations_2_2 False True =
     Inr (Polynomial [1, 0, 1, 0, 2, 0, 1, 0, 1])"
  by code_simp+

section \<open>Reflection counts and rank\<close>

text \<open>
  Claim C7. For every group with defined degrees and codegrees,
  \<^verbatim>\<open>number_of_reflections()\<close> is the sum of the degrees minus the rank,
  \<^verbatim>\<open>number_of_reflecting_hyperplanes()\<close> is the sum of the codegrees plus the rank, and
  the rank is the number of degrees.
\<close>

theorem reflection_counts:
  "number_of_reflections W = sum_list (degrees W) - rank W \<and>
   number_of_reflecting_hyperplanes W = sum_list (codegrees W) + rank W \<and>
   rank W = int (length (degrees W))"
  by (simp add: number_of_reflections_def number_of_reflecting_hyperplanes_def rank_def
      len_py_def sum_py_eq)

section \<open>Real groups\<close>

text \<open>
  Claim C8. \<^verbatim>\<open>is_real()\<close> returns \<^verbatim>\<open>True\<close> exactly when the number of
  occurrences of the value 2 among the degrees equals
  \<^verbatim>\<open>number_of_irreducible_components()\<close>.
\<close>

theorem is_real_iff:
  "is_real W \<longleftrightarrow>
   int (length (filter (\<lambda>d. d = 2) (degrees W))) = number_of_irreducible_components W"
  by (simp add: is_real_def count_py_eq count_list_filter)

section \<open>The two Coxeter numbers\<close>

text \<open>
  The general method of an irreducible group divides the number of reflections plus the
  number of reflecting hyperplanes by the rank; the method of a well-generated
  irreducible group returns the largest degree. The code relates the degrees and the
  codegrees nowhere, so that the two methods agree on every well-generated irreducible
  group (claim C3) is a statement about the sequences such groups have, which the module
  does not encode; it is not proved here. What the code does give is the lemma below: on
  data where each degree and the codegree at the same position add up to the largest
  degree, the two methods return the same value. The docstrings' well-generated examples
  are such data, \<open>[2, 3, 4]\<close> with \<open>[2, 1, 0]\<close> and \<open>[3, 6, 9]\<close> with
  \<open>[6, 3, 0]\<close>; \<^verbatim>\<open>ReflectionGroup(31)\<close>, which is not well generated, is not: there
  the general method returns 30 and the largest degree is 24
  (\<open>doctest_coxeter_number\<close>).
\<close>

lemma duality_sum:
  "list_all2 (\<lambda>d c. d + c = (h::int)) ds cs \<Longrightarrow>
   sum_list cs + sum_list ds = int (length ds) * h"
  by (induction ds cs rule: list_all2_induct) (simp_all add: algebra_simps)

text \<open>
  Whenever the largest degree \<open>h\<close> is returned by the specialised
  \<^verbatim>\<open>coxeter_number()\<close> and every degree and the codegree at its position add up to
  \<open>h\<close>, the general method
  \<^verbatim>\<open>(number_of_reflecting_hyperplanes() + number_of_reflections()) // rank()\<close> returns
  the same value.
\<close>

lemma coxeter_number_agree_under_duality:
  assumes "coxeter_number W = Inr h"
    and "list_all2 (\<lambda>d c. d + c = h) (degrees W) (codegrees W)"
  shows "Irreducible_coxeter_number W = coxeter_number W \<and>
     h = (sum_list (codegrees W) + sum_list (degrees W)) div int (length (degrees W))"
proof -
  let ?n = "int (length (degrees W))"
  have n: "?n \<noteq> 0"
    using assms(1) by (simp add: coxeter_number_Inr)
  have total: "sum_list (codegrees W) + sum_list (degrees W) = ?n * h"
    using assms(2) by (rule duality_sum)
  have "number_of_reflecting_hyperplanes W + number_of_reflections W = ?n * h"
    using total
    by (simp add: number_of_reflecting_hyperplanes_def number_of_reflections_def rank_def
        len_py_def sum_py_eq)
  then have "Irreducible_coxeter_number W = Inr h"
    using n by (simp add: Irreducible_coxeter_number_def floordiv_def rank_def len_py_def)
  moreover have "(sum_list (codegrees W) + sum_list (degrees W)) div ?n = h"
    using n by (simp add: total)
  ultimately show ?thesis
    using assms(1) by simp
qed

lemma coxeter_number_agree_example:
  "coxeter_number ColoredPermutations_3_3 = Inr 9 \<and>
   Irreducible_coxeter_number ColoredPermutations_3_3 = Inr 9 \<and>
   (9::int) = (sum_list [6, 3, 0] + sum_list [3, 6, 9]) div 3"
proof -
  have h: "coxeter_number ColoredPermutations_3_3 = Inr 9"
    by (simp add: ColoredPermutations_3_3_def coxeter_number_def max_py_def)
  have d: "list_all2 (\<lambda>d c. d + c = 9)
      (degrees ColoredPermutations_3_3) (codegrees ColoredPermutations_3_3)"
    by (simp add: ColoredPermutations_3_3_def)
  from coxeter_number_agree_under_duality [OF h d] h show ?thesis
    by (simp add: ColoredPermutations_3_3_def)
qed

section \<open>Reflections of full support\<close>

text \<open>
  Claim C6. \<^verbatim>\<open>number_of_reflections_of_full_support()\<close> is
  \<^verbatim>\<open>rank() * coxeter_number() * prod(codegrees()[:-1]) // cardinality()\<close>: the product
  runs over all codegrees but the last of the stored sequence, and at rank 1 (one
  degree, and as many codegrees as degrees) it is the empty product 1. The Coxeter
  number must exist (the degrees are not empty) and the cardinality must not be zero, as
  for every group.
\<close>

theorem number_of_reflections_of_full_support_formula:
  assumes "coxeter_number W = Inr h" and "cardinality W \<noteq> 0"
  shows "number_of_reflections_of_full_support W =
      Inr (rank W * h * prod_list (butlast (codegrees W)) div cardinality W) \<and>
     (rank W = 1 \<and> length (codegrees W) = length (degrees W) \<longrightarrow>
        prod_list (butlast (codegrees W)) = 1)"
proof -
  have "length (codegrees W) = 1 \<longrightarrow> butlast (codegrees W) = []"
    by (cases "codegrees W") simp_all
  then show ?thesis
    using assms
    by (auto simp: number_of_reflections_of_full_support_def floordiv_def prod_sage_eq
        rank_def len_py_def)
qed

theorem number_of_reflections_of_full_support_formula_witness:
  "number_of_reflections_of_full_support ColoredPermutations_3_3 = Inr 3 \<and>
   number_of_reflections_of_full_support cyclic_5 = Inr 1 \<and>
   prod_list (butlast (codegrees cyclic_5)) = 1"
proof -
  have h: "coxeter_number ColoredPermutations_3_3 = Inr 9" "coxeter_number cyclic_5 = Inr 5"
    by (simp_all add: ColoredPermutations_3_3_def cyclic_5_def coxeter_number_def max_py_def)
  have c: "cardinality ColoredPermutations_3_3 \<noteq> 0" "cardinality cyclic_5 \<noteq> 0"
    by (simp_all add: ColoredPermutations_3_3_def cyclic_5_def cardinality_def prod_sage_def)
  from number_of_reflections_of_full_support_formula [OF h(1) c(1)]
       number_of_reflections_of_full_support_formula [OF h(2) c(2)]
  show ?thesis
    by (simp add: ColoredPermutations_3_3_def cyclic_5_def rank_def len_py_def
        cardinality_def prod_sage_def)
qed

section \<open>Rational Catalan numbers\<close>

text \<open>
  What \<^verbatim>\<open>rational_catalan_number\<close> returns once the Coxeter number \<open>h\<close> exists: the
  \<^verbatim>\<open>ValueError\<close> when \<open>p\<close> is not coprime to \<open>h\<close>, and otherwise the quotient
  \<^verbatim>\<open>num // den\<close> of the two products, of integers or of polynomials. The quotient is
  the floor of the fraction; that the denominator divides the numerator for the degrees
  of a well-generated irreducible group is a theorem about these groups, which the
  method relies on and does not check. Where it divides, the value times the denominator
  is the numerator (\<open>rational_catalan_number_exact\<close>); on the sequence \<open>[3, 5]\<close>, the
  degrees of no reflection group, the method returns 1 for \<open>p = 3\<close>, the floor of
  \<open>20 / 15\<close> (\<open>rational_catalan_number_floor\<close>).
\<close>

lemma rational_catalan_number_not_coprime:
  "coxeter_number W = Inr h \<Longrightarrow> gcd h p \<noteq> 1 \<Longrightarrow>
   rational_catalan_number W p polynomial = Inl (ValueError (not_coprime_message p h))"
  by (simp add: rational_catalan_number_def)

lemma rational_catalan_number_Integer:
  assumes "coxeter_number W = Inr h" and "gcd h p = 1" and "h \<noteq> 0"
    and "prod_list (degrees W) \<noteq> 0"
  shows "rational_catalan_number W p False =
    Inr (Integer (prod_list (map (\<lambda>d. p + (p * (d - 1)) mod h) (degrees W))
                    div prod_list (degrees W)))"
  using assms by (simp add: rational_catalan_number_def floordiv_def prod_sage_eq)

lemma rational_catalan_number_Polynomial:
  assumes "coxeter_number W = Inr h" and "gcd h p = 1" and "h \<noteq> 0"
    and "poly_prod (map q_int (degrees W)) \<noteq> []"
  shows "rational_catalan_number W p True =
    map_sum id Polynomial
      (poly_floordiv (poly_prod (map (\<lambda>d. q_int (p + (p * (d - 1)) mod h)) (degrees W)))
                     (poly_prod (map q_int (degrees W))))"
  using assms by (simp add: rational_catalan_number_def)

lemma rational_catalan_number_exact:
  assumes "coxeter_number W = Inr h" and "gcd h p = 1" and "h \<noteq> 0"
    and "prod_list (degrees W) dvd prod_list (map (\<lambda>d. p + (p * (d - 1)) mod h) (degrees W))"
    and "prod_list (degrees W) \<noteq> 0"
  shows "\<exists>c. rational_catalan_number W p False = Inr (Integer c) \<and>
     c * prod_list (degrees W) = prod_list (map (\<lambda>d. p + (p * (d - 1)) mod h) (degrees W))"
  using assms by (simp add: rational_catalan_number_Integer)

lemma rational_catalan_number_floor:
  "rational_catalan_number
     \<lparr>degrees = [3, 5], codegrees = [2, 0], number_of_simple_reflections = 2,
      number_of_irreducible_components = 1\<rparr> 3 False = Inr (Integer 1)"
  "(3 + (3 * (3 - 1)) mod 5) * (3 + (3 * (5 - 1)) mod 5) = (20::int)"
  by code_simp+

lemma rational_catalan_number_value_or_error:
  "coxeter_number W = Inr h \<Longrightarrow>
   rational_catalan_number W p polynomial \<noteq> Inl (ValueError msg) \<or> gcd h p \<noteq> 1"
  by (auto simp: rational_catalan_number_def floordiv_def poly_floordiv_def
      split: if_splits)

text \<open>
  Claim C2. For a group whose degrees are a non-empty sequence of positive integers,
  with Coxeter number \<open>h\<close>, and every integer \<open>p\<close>: \<^verbatim>\<open>rational_catalan_number(p, ...)\<close>
  raises if and only if \<open>gcd(p, h) \<noteq> 1\<close>, it returns a value if and only if
  \<open>gcd(p, h) = 1\<close>, and what it raises is the \<^verbatim>\<open>ValueError\<close> whose message names
  \<open>p\<close> and \<open>h\<close>.
\<close>

theorem rational_catalan_number_error_iff:
  assumes "degrees W \<noteq> []" and "\<forall>d\<in>set (degrees W). 0 < d"
  shows "\<exists>h. coxeter_number W = Inr h \<and>
     ((\<exists>e. rational_catalan_number W p polynomial = Inl e) \<longleftrightarrow> gcd p h \<noteq> 1) \<and>
     ((\<exists>v. rational_catalan_number W p polynomial = Inr v) \<longleftrightarrow> gcd p h = 1) \<and>
     (gcd p h \<noteq> 1 \<longrightarrow> rational_catalan_number W p polynomial =
        Inl (ValueError (''parameter p = '' @ str_int p @
          '' is not coprime to the Coxeter number '' @ str_int h)))"
proof -
  let ?h = "Max (set (degrees W))"
  have h: "coxeter_number W = Inr ?h" and hpos: "0 < ?h"
    using coxeter_number_positive [OF assms] by simp_all
  have den: "prod_list (degrees W) \<noteq> 0"
    using prod_list_positive [OF assms(2)] by simp
  have pden: "poly_prod (map q_int (degrees W)) \<noteq> []"
    using poly_prod_q_int_nonzero [OF assms(2)] .
  have bad: "rational_catalan_number W p polynomial =
      Inl (ValueError (not_coprime_message p ?h))" if "gcd p ?h \<noteq> 1"
    using that h by (simp add: rational_catalan_number_not_coprime gcd.commute)
  have good: "\<exists>v. rational_catalan_number W p polynomial = Inr v" if "gcd p ?h = 1"
  proof (cases polynomial)
    case True
    then show ?thesis
      using that h hpos pden
      by (simp add: rational_catalan_number_def poly_floordiv_def gcd.commute)
  next
    case False
    then show ?thesis
      using that h hpos den
      by (simp add: rational_catalan_number_def floordiv_def prod_sage_eq gcd.commute)
  qed
  have "(\<exists>e. rational_catalan_number W p polynomial = Inl e) \<longleftrightarrow> gcd p ?h \<noteq> 1"
    using bad good by (cases "gcd p ?h = 1") auto
  moreover have "(\<exists>v. rational_catalan_number W p polynomial = Inr v) \<longleftrightarrow> gcd p ?h = 1"
    using bad good by (cases "gcd p ?h = 1") auto
  ultimately show ?thesis
    using h bad by (auto simp: not_coprime_message_def)
qed

theorem rational_catalan_number_error_iff_witness:
  "rational_catalan_number ColoredPermutations_3_3 6 False =
     Inl (ValueError ''parameter p = 6 is not coprime to the Coxeter number 9'') \<and>
   (\<exists>v. rational_catalan_number ColoredPermutations_3_3 5 True = Inr v)"
proof -
  have d: "degrees ColoredPermutations_3_3 \<noteq> []"
    "\<forall>d\<in>set (degrees ColoredPermutations_3_3). 0 < d"
    by (simp_all add: ColoredPermutations_3_3_def)
  have h: "coxeter_number ColoredPermutations_3_3 = Inr 9"
    by (simp add: ColoredPermutations_3_3_def coxeter_number_def max_py_def)
  have g: "gcd (6::int) 9 \<noteq> 1" "gcd (5::int) 9 = 1" by code_simp+
  have s: "str_int 6 = ''6''" "str_int 9 = ''9''" by code_simp+
  from rational_catalan_number_error_iff [OF d, of 6 False]
       rational_catalan_number_error_iff [OF d, of 5 True] h g s
  show ?thesis by auto
qed

text \<open>
  Claim C5, as amended. On a group whose degrees are \<open>[3, 6, 9]\<close> the Coxeter number
  is 9 and \<^verbatim>\<open>rational_catalan_number(p)\<close> returns 4, 10 and 10 for \<open>p\<close> = 5, 7
  and 8, with no error. The values 7, 12 and 15 are those of the docstring's
  \<^verbatim>\<open>ColoredPermutations(1,3)\<close>, whose degrees are \<open>[2, 3]\<close> and whose Coxeter number
  is 3.
\<close>

theorem rational_catalan_number_examples:
  assumes "degrees W = [3, 6, 9]" and "degrees W' = [2, 3]"
  shows "coxeter_number W = Inr 9 \<and>
     rational_catalan_number W 5 False = Inr (Integer 4) \<and>
     rational_catalan_number W 7 False = Inr (Integer 10) \<and>
     rational_catalan_number W 8 False = Inr (Integer 10) \<and>
     coxeter_number W' = Inr 3 \<and>
     rational_catalan_number W' 5 False = Inr (Integer 7) \<and>
     rational_catalan_number W' 7 False = Inr (Integer 12) \<and>
     rational_catalan_number W' 8 False = Inr (Integer 15)"
proof -
  have g: "gcd (9::int) 5 = 1" "gcd (9::int) 7 = 1" "gcd (9::int) 8 = 1"
    "gcd (3::int) 5 = 1" "gcd (3::int) 7 = 1" "gcd (3::int) 8 = 1"
    by code_simp+
  show ?thesis
    using assms g
    by (simp add: rational_catalan_number_def coxeter_number_def max_py_def floordiv_def
        prod_sage_def)
qed

theorem rational_catalan_number_examples_witness:
  "rational_catalan_number ColoredPermutations_3_3 7 False = Inr (Integer 10) \<and>
   rational_catalan_number ColoredPermutations_1_3 7 False = Inr (Integer 12)"
  using rational_catalan_number_examples [of ColoredPermutations_3_3 ColoredPermutations_1_3]
  by (simp add: ColoredPermutations_3_3_def ColoredPermutations_1_3_def)

text \<open>
  The claim as the spec has it fails: on the degrees \<open>[3, 6, 9]\<close> the factors for
  \<open>p = 5\<close> are \<open>5 + 10 mod 9 = 6\<close>, \<open>5 + 25 mod 9 = 12\<close> and \<open>5 + 40 mod 9 = 9\<close>, and
  \<open>6 * 12 * 9 // (3 * 6 * 9)\<close> is 4, not 7.
\<close>

theorem rational_catalan_number_3_6_9_counterexample:
  "degrees ColoredPermutations_3_3 = [3, 6, 9] \<and>
   rational_catalan_number ColoredPermutations_3_3 5 False = Inr (Integer 4) \<and>
   rational_catalan_number ColoredPermutations_3_3 5 False \<noteq> Inr (Integer 7)"
  by code_simp

section \<open>Fuss-Catalan and Catalan numbers\<close>

lemma gcd_fuss_plus: "gcd (h::int) (m * h + 1) = 1"
  by (simp add: gcd_add_mult)

lemma gcd_fuss_minus: "gcd (h::int) (m * h - 1) = 1"
proof -
  have "gcd h (m * h - 1) = gcd h (- (m * h - 1))" by (simp only: gcd_neg2)
  also have "- (m * h - 1) = (- m) * h + 1" by simp
  also have "gcd h ((- m) * h + 1) = 1" by (rule gcd_fuss_plus)
  finally show ?thesis .
qed

text \<open>
  Claim C4. With \<open>h\<close> the Coxeter number: for the default flags,
  \<^verbatim>\<open>catalan_number()\<close>, \<^verbatim>\<open>fuss_catalan_number(1)\<close> and
  \<^verbatim>\<open>rational_catalan_number(h + 1)\<close> are the same; in general
  \<^verbatim>\<open>fuss_catalan_number(m, positive, polynomial)\<close> is
  \<^verbatim>\<open>rational_catalan_number(p, polynomial)\<close> with \<open>p = m * h - 1\<close> when
  \<^verbatim>\<open>positive\<close> and \<open>p = m * h + 1\<close> otherwise, and
  \<^verbatim>\<open>catalan_number(positive, polynomial)\<close> is
  \<^verbatim>\<open>fuss_catalan_number(1, positive, polynomial)\<close>.
\<close>

theorem catalan_fuss_rational:
  assumes "coxeter_number W = Inr h"
  shows "catalan_number W False False = fuss_catalan_number W 1 False False \<and>
     fuss_catalan_number W 1 False False = rational_catalan_number W (h + 1) False \<and>
     fuss_catalan_number W m positive polynomial =
       rational_catalan_number W (if positive then m * h - 1 else m * h + 1) polynomial \<and>
     catalan_number W positive polynomial = fuss_catalan_number W 1 positive polynomial"
  using assms by (simp add: catalan_number_def fuss_catalan_number_def)

theorem catalan_fuss_rational_witness:
  "catalan_number ColoredPermutations_1_4 False False = Inr (Integer 14) \<and>
   fuss_catalan_number ColoredPermutations_1_4 1 False False = Inr (Integer 14) \<and>
   rational_catalan_number ColoredPermutations_1_4 5 False = Inr (Integer 14) \<and>
   fuss_catalan_number ColoredPermutations_1_4 2 True False =
     rational_catalan_number ColoredPermutations_1_4 7 False"
proof -
  have h: "coxeter_number ColoredPermutations_1_4 = Inr 4"
    by (simp add: ColoredPermutations_1_4_def coxeter_number_def max_py_def)
  have v: "rational_catalan_number ColoredPermutations_1_4 5 False = Inr (Integer 14)"
    by code_simp
  from catalan_fuss_rational [OF h, of 2 True False] v show ?thesis by simp
qed

text \<open>
  Claim C9. With \<open>h\<close> the Coxeter number, the parameter \<^verbatim>\<open>fuss_catalan_number\<close>
  passes on, \<open>m * h - 1\<close> or \<open>m * h + 1\<close>, is coprime to \<open>h\<close>, so
  \<^verbatim>\<open>fuss_catalan_number(m, positive, polynomial)\<close> never ends with the
  \<^verbatim>\<open>ValueError\<close> of the coprimality check (nor with any other \<^verbatim>\<open>ValueError\<close>). This
  holds for every integer \<open>m\<close> and every \<open>h\<close>, in particular for positive \<open>m\<close> and
  \<open>h \<ge> 1\<close>.
\<close>

theorem fuss_catalan_number_coprime:
  assumes "coxeter_number W = Inr h"
  shows "gcd h (m * h - 1) = 1 \<and> gcd h (m * h + 1) = 1 \<and>
     (\<forall>msg. fuss_catalan_number W m positive polynomial \<noteq> Inl (ValueError msg))"
proof -
  let ?p = "if positive then m * h - 1 else m * h + 1"
  have g: "gcd h ?p = 1"
    by (simp add: gcd_fuss_plus gcd_fuss_minus)
  have "fuss_catalan_number W m positive polynomial = rational_catalan_number W ?p polynomial"
    using assms by (simp add: fuss_catalan_number_def)
  moreover have "rational_catalan_number W ?p polynomial \<noteq> Inl (ValueError msg)" for msg
    using rational_catalan_number_value_or_error [OF assms, of ?p polynomial msg] g by simp
  ultimately show ?thesis
    by (simp add: gcd_fuss_plus gcd_fuss_minus)
qed

theorem fuss_catalan_number_coprime_witness:
  "coxeter_number ColoredPermutations_3_3 = Inr 9 \<and> gcd (9::int) (2 * 9 - 1) = 1 \<and>
   gcd (9::int) (2 * 9 + 1) = 1 \<and>
   (\<forall>msg. fuss_catalan_number ColoredPermutations_3_3 2 True False \<noteq> Inl (ValueError msg))"
proof -
  have h: "coxeter_number ColoredPermutations_3_3 = Inr 9"
    by (simp add: ColoredPermutations_3_3_def coxeter_number_def max_py_def)
  from fuss_catalan_number_coprime [OF h, of 2 True False] h show ?thesis by simp
qed

section \<open>Well-generatedness in the well-generated categories\<close>

text \<open>
  Claim C10. On a group of a well-generated category \<^verbatim>\<open>is_well_generated()\<close> is the
  method of \<^verbatim>\<open>WellGenerated.ParentMethods\<close>, which returns \<^verbatim>\<open>True\<close> whatever the
  degrees and the number of simple reflections are; the comparison
  \<^verbatim>\<open>number_of_simple_reflections() == rank()\<close> of the general method is not evaluated.
  On the data of \<^verbatim>\<open>ReflectionGroup((4,2,3))\<close>, where that comparison is false, the
  overriding method still returns \<^verbatim>\<open>True\<close>.
\<close>

theorem is_well_generated_overridden:
  "WellGenerated_is_well_generated W \<and>
   resolve_is_well_generated Finite_WellGenerated W \<and>
   resolve_is_well_generated Finite_WellGenerated_Irreducible W \<and>
   resolve_is_well_generated Finite_WellGenerated
     (W\<lparr>degrees := ds, number_of_simple_reflections := k\<rparr>) \<and>
   resolve_is_well_generated Finite_WellGenerated_Irreducible
     (W\<lparr>degrees := ds, number_of_simple_reflections := k\<rparr>) \<and>
   \<not> is_well_generated ReflectionGroup_4_2_3 \<and>
   resolve_is_well_generated Finite_WellGenerated ReflectionGroup_4_2_3"
  by (simp add: WellGenerated_is_well_generated_def is_well_generated_def rank_def len_py_def
      ReflectionGroup_4_2_3_def)

end
